theory Spec2Isabelle
  imports Main "HOL-Library.Sublist"
begin

section \<open>Go strings and the helpers of package strings\<close>

text \<open>
  A Go string is a sequence of bytes; \<open>len\<close> counts bytes and \<open>s[:n]\<close> cuts at a byte
  offset. The model uses \<^typ>\<open>string\<close>, one \<^typ>\<open>char\<close> per byte.
\<close>

definition HasPrefix :: "string \<Rightarrow> string \<Rightarrow> bool" where
  "HasPrefix s pre = (length s \<ge> length pre \<and> take (length pre) s = pre)"

definition HasSuffix :: "string \<Rightarrow> string \<Rightarrow> bool" where
  "HasSuffix s suf = (length s \<ge> length suf \<and> drop (length s - length suf) s = suf)"

fun Contains :: "string \<Rightarrow> string \<Rightarrow> bool" where
  "Contains [] sub = (sub = [])"
| "Contains (c # cs) sub = (HasPrefix (c # cs) sub \<or> Contains cs sub)"

text \<open>\<open>strings.Trim(s, cutset)\<close>: all leading and trailing bytes of the cutset removed.\<close>

definition Trim :: "string \<Rightarrow> string \<Rightarrow> string" where
  "Trim s cutset =
     rev (dropWhile (\<lambda>c. c \<in> set cutset) (rev (dropWhile (\<lambda>c. c \<in> set cutset) s)))"

text \<open>
  \<open>strings.ToLower\<close>: a string of ASCII bytes only has its bytes \<open>A\<close>..\<open>Z\<close> moved to
  \<open>a\<close>..\<open>z\<close>; any other string goes through the Unicode mapping
  \<open>Map(unicode.ToLower, s)\<close> of the standard library, which is the parameter \<open>uni\<close>.
\<close>

definition isASCII :: "string \<Rightarrow> bool" where
  "isASCII s = list_all (\<lambda>c. (of_char c :: nat) < 128) s"

definition lowerByte :: "char \<Rightarrow> char" where
  "lowerByte c =
     (if 65 \<le> (of_char c :: nat) \<and> (of_char c :: nat) \<le> 90
      then char_of ((of_char c :: nat) + 32) else c)"

definition ToLower :: "(string \<Rightarrow> string) \<Rightarrow> string \<Rightarrow> string" where
  "ToLower uni s = (if isASCII s then map lowerByte s else uni s)"

section \<open>Errors, log records\<close>

text \<open>
  An error is either one handed over by a library (\<open>ExtError\<close>, with its message) or one
  built by \<open>fmt.Errorf\<close>, kept as the format string and its arguments. The same argument
  values serve the log records.
\<close>

datatype val = VString string | VStrings "string list" | VInt int | VDuration int
  | VError error
and error = ExtError string | Errorf string "val list"

type_synonym LogLevel = int

definition LogDebug :: LogLevel where "LogDebug = 0"
definition LogInfo :: LogLevel where "LogInfo = 1"
definition LogWarn :: LogLevel where "LogWarn = 2"
definition LogError :: LogLevel where "LogError = 3"

text \<open>
  One record of the process log: the format string given to \<open>log.Printf\<close> (with its level
  tag) and the arguments. Each function of the model returns the records it emits, in
  order. The global \<open>currentLogLevel\<close> is set once at startup and read only afterwards;
  it is the parameter \<open>lvl\<close> of every function that logs.
\<close>

type_synonym LogRecord = "string \<times> val list"

definition logDebug :: "LogLevel \<Rightarrow> string \<Rightarrow> val list \<Rightarrow> LogRecord list" where
  "logDebug lvl format v = (if lvl \<le> LogDebug then [(''[DEBUG] '' @ format, v)] else [])"

definition logInfo :: "LogLevel \<Rightarrow> string \<Rightarrow> val list \<Rightarrow> LogRecord list" where
  "logInfo lvl format v = (if lvl \<le> LogInfo then [(''[INFO] '' @ format, v)] else [])"

definition logWarn :: "LogLevel \<Rightarrow> string \<Rightarrow> val list \<Rightarrow> LogRecord list" where
  "logWarn lvl format v = (if lvl \<le> LogWarn then [(''[WARN] '' @ format, v)] else [])"

definition logError :: "LogLevel \<Rightarrow> string \<Rightarrow> val list \<Rightarrow> LogRecord list" where
  "logError lvl format v = (if lvl \<le> LogError then [(''[ERROR] '' @ format, v)] else [])"

section \<open>Configuration and session\<close>

record Config =
  SendGridAPIKey :: string
  ListenAddr :: string
  Domain :: string
  LogLevel :: string
  AllowedSenders :: "string list"

text \<open>
  The session of one connection. The fields \<open>from\<close> and \<open>to\<close> of the source are
  \<open>from_s\<close> and \<open>to_s\<close> here; \<open>config\<close> is the pointer to the shared, read-only
  configuration, modelled by its value.
\<close>

record Session =
  config :: Config
  remoteAddr :: string
  from_s :: string
  to_s :: "string list"

definition NewSession :: "LogLevel \<Rightarrow> Config \<Rightarrow> string \<Rightarrow> Session \<times> LogRecord list" where
  "NewSession lvl cfg remote =
     (\<lparr>config = cfg, remoteAddr = remote, from_s = [], to_s = []\<rparr>,
      logDebug lvl ''New SMTP session from %s'' [VString remote])"

definition AuthPlain :: "LogLevel \<Rightarrow> Session \<Rightarrow> string \<Rightarrow> string
    \<Rightarrow> error option \<times> Session \<times> LogRecord list" where
  "AuthPlain lvl s username password =
     (None, s,
      logDebug lvl ''Auth attempt from %s (ignored - internal relay)'' [VString (remoteAddr s)])"

text \<open>
  The loop of \<open>Mail\<close> over the allowed domains: true at the first domain one of whose two
  suffix tests holds.
\<close>

fun senderAllowed :: "(string \<Rightarrow> string) \<Rightarrow> string \<Rightarrow> string list \<Rightarrow> bool" where
  "senderAllowed uni fromLower [] = False"
| "senderAllowed uni fromLower (domain # rest) =
     (if HasSuffix fromLower (''@'' @ ToLower uni domain) \<or>
         HasSuffix fromLower (''.'' @ ToLower uni domain @ ''>'')
      then True
      else senderAllowed uni fromLower rest)"

text \<open>The options argument of \<open>Mail\<close> and \<open>Rcpt\<close> is never read and is left out.\<close>

definition Mail :: "(string \<Rightarrow> string) \<Rightarrow> LogLevel \<Rightarrow> Session \<Rightarrow> string
    \<Rightarrow> error option \<times> Session \<times> LogRecord list" where
  "Mail uni lvl s from =
     (if length (AllowedSenders (config s)) > 0 \<and>
         \<not> senderAllowed uni (ToLower uni from) (AllowedSenders (config s))
      then (Some (Errorf ''sender domain not allowed'' []), s,
            logWarn lvl ''Rejected sender %s (not in allowed list)'' [VString from])
      else (None, s\<lparr>from_s := from\<rparr>, logDebug lvl ''MAIL FROM: %s'' [VString from]))"

definition Rcpt :: "LogLevel \<Rightarrow> Session \<Rightarrow> string
    \<Rightarrow> error option \<times> Session \<times> LogRecord list" where
  "Rcpt lvl s to = (None, s\<lparr>to_s := to_s s @ [to]\<rparr>, logDebug lvl ''RCPT TO: %s'' [VString to])"

definition Reset :: "LogLevel \<Rightarrow> Session \<Rightarrow> Session \<times> LogRecord list" where
  "Reset lvl s = (s\<lparr>from_s := [], to_s := []\<rparr>, logDebug lvl ''Session reset'' [])"

definition Logout :: "LogLevel \<Rightarrow> Session \<Rightarrow> error option \<times> LogRecord list" where
  "Logout lvl s = (None, logDebug lvl ''Session logout from %s'' [VString (remoteAddr s)])"

section \<open>Messages, the send request and the libraries\<close>

text \<open>\<open>mail.Address\<close> of the standard library.\<close>

record Address =
  Name :: string
  Address :: string

text \<open>
  \<open>mail.Message\<close>: the header map and the body, the latter given by what
  \<open>io.ReadAll(msg.Body)\<close> returns. \<open>Get\<close> is \<open>Header.Get\<close>: the first value of the key,
  the empty string when there is none (the three keys the relay reads are in canonical
  form already).
\<close>

type_synonym Header = "string \<rightharpoonup> string list"

record Message =
  Header :: Header
  MsgBody :: "error + string"

definition Get :: "Header \<Rightarrow> string \<Rightarrow> string" where
  "Get h key = (case h key of None \<Rightarrow> [] | Some [] \<Rightarrow> [] | Some (v # _) \<Rightarrow> v)"

text \<open>
  One part of a multipart body as \<open>NextPart\<close> returns it: its header and what
  \<open>io.ReadAll(part)\<close> returns.
\<close>

record Part =
  PartHeader :: Header
  PartBody :: "error + string"

text \<open>The types of the SendGrid helper package that the relay fills in.\<close>

record Email =
  EmailName :: string
  EmailAddress :: string

record Content =
  Type :: string
  Value :: string

record Personalization =
  To :: "Email list"

record SGMailV3 =
  From :: "Email option"
  Subject :: string
  Personalizations :: "Personalization list"
  Content :: "Content list"

record Response =
  StatusCode :: int
  Body :: string

definition NewV3Mail :: SGMailV3 where
  "NewV3Mail = \<lparr>From = None, Subject = [], Personalizations = [], Content = []\<rparr>"

definition NewEmail :: "string \<Rightarrow> string \<Rightarrow> Email" where
  "NewEmail name address = \<lparr>EmailName = name, EmailAddress = address\<rparr>"

definition NewContent :: "string \<Rightarrow> string \<Rightarrow> Content" where
  "NewContent contentType v = \<lparr>Type = contentType, Value = v\<rparr>"

definition NewPersonalization :: Personalization where
  "NewPersonalization = \<lparr>To = []\<rparr>"

definition SetFrom :: "SGMailV3 \<Rightarrow> Email \<Rightarrow> SGMailV3" where
  "SetFrom m e = m\<lparr>From := Some e\<rparr>"

definition AddTos :: "Personalization \<Rightarrow> Email \<Rightarrow> Personalization" where
  "AddTos p e = p\<lparr>To := To p @ [e]\<rparr>"

definition AddPersonalizations :: "SGMailV3 \<Rightarrow> Personalization \<Rightarrow> SGMailV3" where
  "AddPersonalizations m p = m\<lparr>Personalizations := Personalizations m @ [p]\<rparr>"

definition AddContent :: "SGMailV3 \<Rightarrow> Content \<Rightarrow> SGMailV3" where
  "AddContent m c = m\<lparr>Content := Content m @ [c]\<rparr>"

text \<open>
  The library functions the relay calls and whose results it only inspects are parameters
  of the model, collected in one record:
  \<^item> \<open>ToLowerUnicode\<close>: the Unicode branch of \<open>strings.ToLower\<close>;
  \<^item> \<open>ReadMessage\<close>: \<open>mail.ReadMessage\<close> on the bytes of the message;
  \<^item> \<open>DecodeHeader\<close>: \<open>WordDecoder.DecodeHeader\<close>;
  \<^item> \<open>ParseAddress\<close>: \<open>mail.ParseAddress\<close>;
  \<^item> \<open>ParseMediaType\<close>: \<open>mime.ParseMediaType\<close>, the media type and its parameters;
  \<^item> \<open>NextParts\<close>: for a body and a boundary, the parts that the successive calls of
    \<open>NextPart\<close> on \<open>multipart.NewReader\<close> return, and how the sequence ends: \<open>None\<close>
    for \<open>io.EOF\<close>, \<open>Some err\<close> for any other error;
  \<^item> \<open>Send\<close>: \<open>sendgrid.NewSendClient(key).Send(message)\<close>.
\<close>

record Lib =
  ToLowerUnicode :: "string \<Rightarrow> string"
  ReadMessage :: "string \<Rightarrow> error + Message"
  DecodeHeader :: "string \<Rightarrow> error + string"
  ParseAddress :: "string \<Rightarrow> error + Address"
  ParseMediaType :: "string \<Rightarrow> error + string \<times> (string \<rightharpoonup> string)"
  NextParts :: "string \<Rightarrow> string \<Rightarrow> Part list \<times> error option"
  Send :: "string \<Rightarrow> SGMailV3 \<Rightarrow> error + Response"

definition decodeHeader :: "Lib \<Rightarrow> string \<Rightarrow> string" where
  "decodeHeader lib header =
     (case DecodeHeader lib header of Inl err \<Rightarrow> header | Inr decoded \<Rightarrow> decoded)"

section \<open>Translation of a message into a send request\<close>

text \<open>
  The loop of \<open>handleMultipart\<close> over the parts, with the two candidates
  \<open>textContent\<close> and \<open>htmlContent\<close> as accumulators. A part that cannot be read is
  skipped; an error of \<open>NextPart\<close> other than \<open>io.EOF\<close> ends the function.
\<close>

fun partsLoop :: "Part list \<Rightarrow> error option \<Rightarrow> string \<Rightarrow> string \<Rightarrow> error + string \<times> string" where
  "partsLoop [] None textContent htmlContent = Inr (textContent, htmlContent)"
| "partsLoop [] (Some err) textContent htmlContent = Inl err"
| "partsLoop (part # rest) fin textContent htmlContent =
     (let partContentType = Get (PartHeader part) ''Content-Type'' in
      case PartBody part of
        Inl err \<Rightarrow> partsLoop rest fin textContent htmlContent
      | Inr partBody \<Rightarrow>
          if Contains partContentType ''text/plain''
          then partsLoop rest fin partBody htmlContent
          else if Contains partContentType ''text/html''
          then partsLoop rest fin textContent partBody
          else partsLoop rest fin textContent htmlContent)"

text \<open>
  \<open>handleMultipart\<close> writes into the message it is given; the model returns the message
  as it is left, with the error if any.
\<close>

definition handleMultipart :: "Lib \<Rightarrow> SGMailV3 \<Rightarrow> string \<Rightarrow> string
    \<Rightarrow> error option \<times> SGMailV3" where
  "handleMultipart lib message body contentType =
     (case ParseMediaType lib contentType of
        Inl err \<Rightarrow> (Some err, message)
      | Inr (mediaType, params) \<Rightarrow>
          if \<not> HasPrefix mediaType ''multipart/''
          then (Some (Errorf ''not a multipart message'' []), message)
          else
            let boundary = (case params ''boundary'' of None \<Rightarrow> [] | Some b \<Rightarrow> b) in
            if boundary = [] then (Some (Errorf ''no boundary found'' []), message)
            else
              case NextParts lib body boundary of (parts, fin) \<Rightarrow>
              (case partsLoop parts fin [] [] of
                 Inl err \<Rightarrow> (Some err, message)
               | Inr (textContent, htmlContent) \<Rightarrow>
                   let m1 = (if htmlContent \<noteq> []
                             then AddContent message (NewContent ''text/html'' htmlContent)
                             else message);
                       m2 = (if textContent \<noteq> []
                             then AddContent m1 (NewContent ''text/plain'' textContent)
                             else m1)
                   in if textContent = [] \<and> htmlContent = []
                      then (Some (Errorf ''no text or html content found'' []), m2)
                      else (None, m2)))"

text \<open>The loop of \<open>sendViaSendGrid\<close> over the recipients.\<close>

fun addRecipients :: "Lib \<Rightarrow> string list \<Rightarrow> Personalization \<Rightarrow> Personalization" where
  "addRecipients lib [] p = p"
| "addRecipients lib (recipient # rest) p =
     (let toAddr = (case ParseAddress lib recipient of
                      Inl err \<Rightarrow> \<lparr>Name = [], Address = Trim recipient ''<>''\<rparr>
                    | Inr a \<Rightarrow> a)
      in addRecipients lib rest (AddTos p (NewEmail (Name toAddr) (Address toAddr))))"

text \<open>
  The content step of \<open>sendViaSendGrid\<close> (the if-chain on the content type): the message
  with its content blocks, and the records logged.
\<close>

definition addContentFor :: "Lib \<Rightarrow> LogLevel \<Rightarrow> SGMailV3 \<Rightarrow> string \<Rightarrow> string
    \<Rightarrow> SGMailV3 \<times> LogRecord list" where
  "addContentFor lib lvl message body contentType =
     (if Contains contentType ''multipart/''
      then (case handleMultipart lib message body contentType of
              (Some err, m) \<Rightarrow>
                (AddContent m (NewContent ''text/plain'' body),
                 logWarn lvl ''Failed to parse multipart, sending as plain text: %v'' [VError err])
            | (None, m) \<Rightarrow> (m, []))
      else if Contains contentType ''text/html''
      then (AddContent message (NewContent ''text/html'' body), [])
      else (AddContent message (NewContent ''text/plain'' body), []))"

text \<open>
  \<open>sendViaSendGrid\<close> returns its error, and the model adds the request handed to the
  client and the records logged. The request is always built and submitted: no path
  returns before \<open>client.Send\<close>.
\<close>

definition sendViaSendGrid :: "Lib \<Rightarrow> LogLevel \<Rightarrow> Session \<Rightarrow> string \<Rightarrow> string list \<Rightarrow> string
    \<Rightarrow> string \<Rightarrow> string \<Rightarrow> error option \<times> SGMailV3 \<times> LogRecord list" where
  "sendViaSendGrid lib lvl s from to subject body contentType =
     (let fromAddr = (case ParseAddress lib from of
                        Inl err \<Rightarrow> \<lparr>Name = [], Address = Trim from ''<>''\<rparr>
                      | Inr a \<Rightarrow> a);
          message0 = (SetFrom NewV3Mail (NewEmail (Name fromAddr) (Address fromAddr)))
                       \<lparr>Subject := subject\<rparr>;
          p = addRecipients lib to NewPersonalization;
          message1 = AddPersonalizations message0 p
      in case addContentFor lib lvl message1 body contentType of (message, log1) \<Rightarrow>
         (case Send lib (SendGridAPIKey (config s)) message of
            Inl err \<Rightarrow> (Some (Errorf ''sendgrid API error: %w'' [VError err]), message, log1)
          | Inr response \<Rightarrow>
              if StatusCode response \<ge> 400
              then (Some (Errorf ''sendgrid returned status %d: %s''
                            [VInt (StatusCode response), VString (Body response)]),
                    message,
                    log1 @ logError lvl ''SendGrid returned error: status=%d body=%s''
                             [VInt (StatusCode response), VString (Body response)])
              else (None, message,
                    log1 @ logDebug lvl ''SendGrid response: status=%d''
                             [VInt (StatusCode response)])))"

section \<open>The DATA callback\<close>

text \<open>
  \<open>Data\<close> reads the session and does not write it. Its reader argument is given by what
  \<open>io.ReadAll(r)\<close> returns, the elapsed time \<open>time.Since(startTime)\<close> by the parameter
  \<open>duration\<close>. The result is the error, the request handed to the provider's client
  (\<open>None\<close> when \<open>Data\<close> returns before \<open>sendViaSendGrid\<close>) and the records logged.
\<close>

text \<open>
  \<open>truncate\<close> is only called with the constant 50; its \<open>maxLen\<close> is a natural number
  here.
\<close>

definition truncate :: "string \<Rightarrow> nat \<Rightarrow> string" where
  "truncate s maxLen = (if length s \<le> maxLen then s else take maxLen s @ ''...'')"

definition Data :: "Lib \<Rightarrow> LogLevel \<Rightarrow> Session \<Rightarrow> error + string \<Rightarrow> int
    \<Rightarrow> error option \<times> SGMailV3 option \<times> LogRecord list" where
  "Data lib lvl s r duration =
     (case r of
        Inl err \<Rightarrow>
          (Some (Errorf ''failed to read email data: %w'' [VError err]), None,
           logError lvl ''Failed to read email data: %v'' [VError err])
      | Inr data \<Rightarrow>
         (let log0 = logDebug lvl ''Received email data: %d bytes'' [VInt (int (length data))] in
          (case ReadMessage lib data of
            Inl err \<Rightarrow>
              (Some (Errorf ''failed to parse email: %w'' [VError err]), None,
               log0 @ logError lvl ''Failed to parse email: %v'' [VError err])
          | Inr msg \<Rightarrow>
             (let subject = decodeHeader lib (Get (Header msg) ''Subject'');
                  from = Get (Header msg) ''From'';
                  contentType = Get (Header msg) ''Content-Type'';
                  log1 = log0 @ logDebug lvl ''Subject: %s'' [VString subject]
                           @ logDebug lvl ''From header: %s'' [VString from]
                           @ logDebug lvl ''Content-Type: %s'' [VString contentType]
              in (case MsgBody msg of
                   Inl err \<Rightarrow>
                     (Some (Errorf ''failed to read email body: %w'' [VError err]), None,
                      log1 @ logError lvl ''Failed to read email body: %v'' [VError err])
                 | Inr body \<Rightarrow>
                     (case sendViaSendGrid lib lvl s from (to_s s) subject body contentType of
                        (Some err, message, log2) \<Rightarrow>
                          (Some err, Some message,
                           log1 @ log2 @ logError lvl ''Failed to send via SendGrid: %v'' [VError err])
                      | (None, message, log2) \<Rightarrow>
                          (None, Some message,
                           log1 @ log2 @
                           logInfo lvl
                             ''Email sent successfully: from=%s to=%v subject=%q duration=%v''
                             [VString (from_s s), VStrings (to_s s),
                              VString (truncate subject 50), VDuration duration])))))))"

section \<open>Auxiliary definitions for the statements\<close>

text \<open>
  The request as \<open>sendViaSendGrid\<close> has built it when it reaches its content step:
  sender, subject and the one personalization with the recipients.
\<close>

definition requestFor :: "Lib \<Rightarrow> string \<Rightarrow> string list \<Rightarrow> string \<Rightarrow> SGMailV3" where
  "requestFor lib from to subject =
     AddPersonalizations
       ((SetFrom NewV3Mail
           (case ParseAddress lib from of
              Inl err \<Rightarrow> NewEmail [] (Trim from ''<>'')
            | Inr a \<Rightarrow> NewEmail (Name a) (Address a)))\<lparr>Subject := subject\<rparr>)
       (addRecipients lib to NewPersonalization)"

subsection \<open>Sample inputs\<close>

text \<open>
  A small library instance for concrete runs: an address parser that accepts a bare
  \<open>local@domain\<close>, a media type parser that knows three values, a message parser that
  returns the given message, a multipart reader that returns the given parts and a client
  that returns the given response.
\<close>

definition sampleParseAddress :: "string \<Rightarrow> error + Address" where
  "sampleParseAddress a =
     (if CHR ''@'' \<in> set a \<and> CHR ''<'' \<notin> set a \<and> CHR ''>'' \<notin> set a \<and> CHR '' '' \<notin> set a
      then Inr \<lparr>Name = [], Address = a\<rparr>
      else Inl (ExtError ''mail: no angle-addr''))"

definition sampleParseMediaType :: "string \<Rightarrow> error + string \<times> (string \<rightharpoonup> string)" where
  "sampleParseMediaType v =
     (if v = ''multipart/alternative; boundary=XX''
      then Inr (''multipart/alternative'', [''boundary'' \<mapsto> ''XX''])
      else if v = ''multipart/mixed'' then Inr (''multipart/mixed'', Map.empty)
      else if v = ''text/plain'' then Inr (''text/plain'', Map.empty)
      else Inl (ExtError ''mime: no media type''))"

definition sampleLib :: "Message \<Rightarrow> Part list \<times> error option \<Rightarrow> error + Response \<Rightarrow> Lib" where
  "sampleLib msg parts resp =
     \<lparr>ToLowerUnicode = (\<lambda>s. s),
      ReadMessage = (\<lambda>data. Inr msg),
      DecodeHeader = (\<lambda>h. Inr h),
      ParseAddress = sampleParseAddress,
      ParseMediaType = sampleParseMediaType,
      NextParts = (\<lambda>body boundary. parts),
      Send = (\<lambda>key message. resp)\<rparr>"

definition sampleConfig :: "string list \<Rightarrow> Config" where
  "sampleConfig allowed =
     \<lparr>SendGridAPIKey = ''SG.key'', ListenAddr = '':25'', Domain = ''localhost'',
      LogLevel = ''info'', AllowedSenders = allowed\<rparr>"

definition sampleSession :: "string list \<Rightarrow> string \<Rightarrow> string list \<Rightarrow> Session" where
  "sampleSession allowed sender rcpts =
     \<lparr>config = sampleConfig allowed, remoteAddr = ''10.0.0.7:51000'',
      from_s = sender, to_s = rcpts\<rparr>"

definition sampleMessage :: "(string \<times> string) list \<Rightarrow> string \<Rightarrow> Message" where
  "sampleMessage hs body = \<lparr>Header = map_of (map (\<lambda>(k, v). (k, [v])) hs), MsgBody = Inr body\<rparr>"

definition samplePart :: "string \<Rightarrow> string \<Rightarrow> Part" where
  "samplePart ctype body = \<lparr>PartHeader = [''Content-Type'' \<mapsto> [ctype]], PartBody = Inr body\<rparr>"

definition accepted :: Response where
  "accepted = \<lparr>StatusCode = 202, Body = []\<rparr>"

subsection \<open>The parts that handleMultipart selects\<close>

text \<open>
  The words of the specification for the multipart walk, to be compared with
  \<open>partsLoop\<close>. A part counts when it can be read. It is a plain-text part when its
  \<open>Content-Type\<close> contains \<open>text/plain\<close>, and an html part when its \<open>Content-Type\<close> contains
  \<open>text/html\<close> and not \<open>text/plain\<close> (the test for \<open>text/plain\<close> comes first in the code).
  Both are the substring tests of the code on the header as it is written: they do not
  fold case.
  \<open>lastBody\<close> is the body of the last part of a kind, or the given default when there
  is none: the last occurrence wins.
\<close>

definition readBody :: "Part \<Rightarrow> string" where
  "readBody p = (case PartBody p of Inl err \<Rightarrow> [] | Inr b \<Rightarrow> b)"

definition isReadable :: "Part \<Rightarrow> bool" where
  "isReadable p = (case PartBody p of Inl err \<Rightarrow> False | Inr b \<Rightarrow> True)"

definition isPlainPart :: "Part \<Rightarrow> bool" where
  "isPlainPart p = (isReadable p \<and> Contains (Get (PartHeader p) ''Content-Type'') ''text/plain'')"

definition isHtmlPart :: "Part \<Rightarrow> bool" where
  "isHtmlPart p =
     (isReadable p \<and> Contains (Get (PartHeader p) ''Content-Type'') ''text/html'' \<and>
      \<not> Contains (Get (PartHeader p) ''Content-Type'') ''text/plain'')"

definition lastBody :: "(Part \<Rightarrow> bool) \<Rightarrow> Part list \<Rightarrow> string \<Rightarrow> string" where
  "lastBody kind parts dflt =
     (if filter kind parts = [] then dflt else readBody (last (filter kind parts)))"

subsection \<open>The order of the callbacks\<close>

text \<open>
  Modelled from the spec: the protocol engine that calls the session callbacks is a
  library outside the repository, and section 4.4 of the specification gives the order
  in which it calls them, as a state machine with the states \<open>Idle\<close>, \<open>MailAccepted\<close> and
  \<open>RecipientsCollected\<close>:
  \<^item> \<open>Mail\<close> takes \<open>Idle\<close> to \<open>MailAccepted\<close> when the sender is accepted, and changes no
    state when it is rejected;
  \<^item> \<open>Rcpt\<close> is called in \<open>MailAccepted\<close> or \<open>RecipientsCollected\<close> and leads to
    \<open>RecipientsCollected\<close>;
  \<^item> \<open>Data\<close> is called in \<open>RecipientsCollected\<close> only and leads to \<open>Idle\<close>;
  \<^item> \<open>Reset\<close> is called in any state and leads to \<open>Idle\<close>;
  \<^item> \<open>AuthPlain\<close> is called in any state and changes no state.
  \<open>Logout\<close> ends the connection and is the end of a run. \<open>engineStep\<close> is one call: the
  new state of the engine and the session as the callback leaves it (\<open>Data\<close> reads the
  session and leaves it as it is), or \<open>None\<close> when the engine does not make this call in
  this state. The model is more liberal than the specification in one point: \<open>Mail\<close> may
  also be called after a sender was accepted, and leaves the state of the engine as it
  is then. Every run of the machine of the specification is a run of this one.
\<close>

datatype Callback =
    CallMail string
  | CallRcpt string
  | CallData "error + string" int
  | CallReset
  | CallAuthPlain string string

datatype EngineState = Idle | MailAccepted | RecipientsCollected

fun engineStep :: "Lib \<Rightarrow> LogLevel \<Rightarrow> EngineState \<times> Session \<Rightarrow> Callback
    \<Rightarrow> (EngineState \<times> Session) option" where
  "engineStep lib lvl (st, s) (CallMail from) =
     (case Mail (ToLowerUnicode lib) lvl s from of
        (None, s', log) \<Rightarrow> Some (if st = Idle then MailAccepted else st, s')
      | (Some err, s', log) \<Rightarrow> Some (st, s'))"
| "engineStep lib lvl (st, s) (CallRcpt to) =
     (if st = Idle then None
      else Some (RecipientsCollected, fst (snd (Rcpt lvl s to))))"
| "engineStep lib lvl (st, s) (CallData r duration) =
     (if st = RecipientsCollected then Some (Idle, s) else None)"
| "engineStep lib lvl (st, s) CallReset = Some (Idle, fst (Reset lvl s))"
| "engineStep lib lvl (st, s) (CallAuthPlain username password) =
     Some (st, fst (snd (AuthPlain lvl s username password)))"

fun engineRun :: "Lib \<Rightarrow> LogLevel \<Rightarrow> EngineState \<times> Session \<Rightarrow> Callback list
    \<Rightarrow> (EngineState \<times> Session) option" where
  "engineRun lib lvl es [] = Some es"
| "engineRun lib lvl es (c # cs) =
     (case engineStep lib lvl es c of
        None \<Rightarrow> None
      | Some es' \<Rightarrow> engineRun lib lvl es' cs)"

text \<open>
  What the engine's order keeps about the envelope: once a sender was accepted, the
  stored sender has passed the allow-list check when a list is configured, and once a
  recipient was collected the recipient list is not empty. The configuration of the
  session stays the one it was created with.
\<close>

definition envelopeOK :: "Lib \<Rightarrow> Config \<Rightarrow> EngineState \<times> Session \<Rightarrow> bool" where
  "envelopeOK lib cfg es =
     (case es of (st, s) \<Rightarrow>
        config s = cfg \<and>
        (st = Idle \<or> AllowedSenders cfg = [] \<or>
         senderAllowed (ToLowerUnicode lib) (ToLower (ToLowerUnicode lib) (from_s s))
           (AllowedSenders cfg)) \<and>
        (st = RecipientsCollected \<longrightarrow> to_s s \<noteq> []))"

subsection \<open>Characters of a subject\<close>

text \<open>
  The word of the specification for the length of a subject, to be compared with the
  bytes that \<open>truncate\<close> counts. The decoded subject is a UTF-8 string; a character of it
  is one code point, that is, one byte that is not a continuation byte
  (\<open>0x80\<close> to \<open>0xBF\<close>). \<open>accentedSubject\<close> is the letter \<open>a\<close> followed by 25 times the
  two bytes \<open>0xC3 0xA9\<close> of an accented \<open>e\<close>: 26 characters in 51 bytes.
\<close>

definition isContinuation :: "char \<Rightarrow> bool" where
  "isContinuation c = (128 \<le> (of_char c :: nat) \<and> (of_char c :: nat) < 192)"

definition characters :: "string \<Rightarrow> nat" where
  "characters s = length (filter (\<lambda>c. \<not> isContinuation c) s)"

definition accentedSubject :: string where
  "accentedSubject = CHR ''a'' # concat (replicate 25 [CHR 0xC3, CHR 0xA9])"

section \<open>Basic facts about the model\<close>

lemmas sample_defs = sampleLib_def sampleParseAddress_def sampleParseMediaType_def
  sampleConfig_def sampleSession_def sampleMessage_def samplePart_def accepted_def

lemmas log_defs = logDebug_def logInfo_def logWarn_def logError_def
  LogDebug_def LogInfo_def LogWarn_def LogError_def

lemmas request_defs = NewV3Mail_def NewEmail_def NewContent_def NewPersonalization_def
  SetFrom_def AddTos_def AddPersonalizations_def AddContent_def

lemma handleMultipart_frame:
  "From (snd (handleMultipart lib m body ct)) = From m \<and>
   Subject (snd (handleMultipart lib m body ct)) = Subject m \<and>
   Personalizations (snd (handleMultipart lib m body ct)) = Personalizations m"
  by (simp add: handleMultipart_def AddContent_def Let_def split: sum.splits prod.splits)

lemma addContentFor_frame:
  "From (fst (addContentFor lib lvl m body ct)) = From m \<and>
   Subject (fst (addContentFor lib lvl m body ct)) = Subject m \<and>
   Personalizations (fst (addContentFor lib lvl m body ct)) = Personalizations m"
proof -
  obtain e m' where h: "handleMultipart lib m body ct = (e, m')"
    by (cases "handleMultipart lib m body ct")
  have "From m' = From m \<and> Subject m' = Subject m \<and> Personalizations m' = Personalizations m"
    using handleMultipart_frame [of lib m body ct] h by simp
  then show ?thesis
    by (cases e) (simp_all add: addContentFor_def h AddContent_def)
qed

lemma sendViaSendGrid_unfold:
  "sendViaSendGrid lib lvl s from to subject body ct =
     (let message = fst (addContentFor lib lvl (requestFor lib from to subject) body ct);
          log1 = snd (addContentFor lib lvl (requestFor lib from to subject) body ct)
      in case Send lib (SendGridAPIKey (config s)) message of
            Inl err \<Rightarrow> (Some (Errorf ''sendgrid API error: %w'' [VError err]), message, log1)
          | Inr response \<Rightarrow>
              if StatusCode response \<ge> 400
              then (Some (Errorf ''sendgrid returned status %d: %s''
                            [VInt (StatusCode response), VString (Body response)]),
                    message,
                    log1 @ logError lvl ''SendGrid returned error: status=%d body=%s''
                             [VInt (StatusCode response), VString (Body response)])
              else (None, message,
                    log1 @ logDebug lvl ''SendGrid response: status=%d''
                             [VInt (StatusCode response)]))"
  by (cases "ParseAddress lib from")
     (simp_all add: sendViaSendGrid_def requestFor_def Let_def split_beta NewEmail_def
        split: sum.splits)

lemma sendViaSendGrid_message:
  "fst (snd (sendViaSendGrid lib lvl s from to subject body ct)) =
     fst (addContentFor lib lvl (requestFor lib from to subject) body ct)"
  by (simp add: sendViaSendGrid_unfold Let_def split: sum.splits)

lemma Data_unfold:
  assumes "ReadMessage lib data = Inr msg" and "MsgBody msg = Inr body"
  shows "Data lib lvl s (Inr data) duration =
     (let subject = decodeHeader lib (Get (Header msg) ''Subject'');
          from = Get (Header msg) ''From'';
          contentType = Get (Header msg) ''Content-Type'';
          log1 = logDebug lvl ''Received email data: %d bytes'' [VInt (int (length data))]
                   @ logDebug lvl ''Subject: %s'' [VString subject]
                   @ logDebug lvl ''From header: %s'' [VString from]
                   @ logDebug lvl ''Content-Type: %s'' [VString contentType];
          sent = sendViaSendGrid lib lvl s from (to_s s) subject body contentType
      in case fst sent of
           Some err \<Rightarrow>
             (Some err, Some (fst (snd sent)),
              log1 @ snd (snd sent) @ logError lvl ''Failed to send via SendGrid: %v'' [VError err])
         | None \<Rightarrow>
             (None, Some (fst (snd sent)),
              log1 @ snd (snd sent) @
              logInfo lvl ''Email sent successfully: from=%s to=%v subject=%q duration=%v''
                [VString (from_s s), VStrings (to_s s),
                 VString (truncate subject 50), VDuration duration]))"
proof -
  obtain e m l where sent:
    "sendViaSendGrid lib lvl s (Get (Header msg) ''From'') (to_s s)
       (decodeHeader lib (Get (Header msg) ''Subject'')) body
       (Get (Header msg) ''Content-Type'') = (e, m, l)"
    using prod_cases3 by blast
  show ?thesis
    by (cases e) (simp_all add: Data_def Let_def assms sent)
qed

lemma Data_request:
  assumes "ReadMessage lib data = Inr msg" and "MsgBody msg = Inr body"
  shows "fst (snd (Data lib lvl s (Inr data) duration)) =
           Some (fst (snd (sendViaSendGrid lib lvl s (Get (Header msg) ''From'') (to_s s)
                             (decodeHeader lib (Get (Header msg) ''Subject'')) body
                             (Get (Header msg) ''Content-Type''))))"
  by (simp add: Data_unfold [OF assms] Let_def split: option.splits)

lemma Data_result:
  assumes "ReadMessage lib data = Inr msg" and "MsgBody msg = Inr body"
  shows "fst (Data lib lvl s (Inr data) duration) =
           fst (sendViaSendGrid lib lvl s (Get (Header msg) ''From'') (to_s s)
                  (decodeHeader lib (Get (Header msg) ''Subject'')) body
                  (Get (Header msg) ''Content-Type''))"
  by (simp add: Data_unfold [OF assms] Let_def split: option.splits)

section \<open>Reset\<close>

text \<open>
  Claim C9. In any session state, \<open>Reset\<close> sets the stored sender to the empty string and
  the recipient list to the empty list and leaves the configuration and the remote
  address as they were; a recipient added afterwards is the only one of the new
  transaction.
\<close>

theorem Reset_clears_envelope:
  "from_s (fst (Reset lvl s)) = [] \<and> to_s (fst (Reset lvl s)) = [] \<and>
   config (fst (Reset lvl s)) = config s \<and> remoteAddr (fst (Reset lvl s)) = remoteAddr s \<and>
   to_s (fst (snd (Rcpt lvl (fst (Reset lvl s)) rcpt))) = [rcpt]"
  by (simp add: Reset_def Rcpt_def)

theorem Reset_clears_envelope_witness:
  "fst (Reset LogInfo (sampleSession [] ''a@b.com'' [''c@d.com'', ''e@f.com''])) =
     sampleSession [] [] []"
  using Reset_clears_envelope
    [of LogInfo "sampleSession [] ''a@b.com'' [''c@d.com'', ''e@f.com'']"]
  by (simp add: sampleSession_def Reset_def)

section \<open>Rejected senders\<close>

text \<open>
  Claim C7. When the allow-list check rejects a sender (the list is not empty and no
  entry passes the suffix tests), \<open>Mail\<close> returns the error \<open>sender domain not allowed\<close>
  and the session is the one it was given. Whenever \<open>Mail\<close> returns an error, the session
  is unchanged: the stored sender and the recipient list are the previous ones.
\<close>

theorem Mail_rejected_keeps_session:
  "(AllowedSenders (config s) \<noteq> [] \<and>
    \<not> senderAllowed uni (ToLower uni from) (AllowedSenders (config s))
    \<longrightarrow> fst (Mail uni lvl s from) = Some (Errorf ''sender domain not allowed'' []) \<and>
        fst (snd (Mail uni lvl s from)) = s) \<and>
   (fst (Mail uni lvl s from) \<noteq> None \<longrightarrow>
      fst (snd (Mail uni lvl s from)) = s \<and>
      from_s (fst (snd (Mail uni lvl s from))) = from_s s \<and>
      to_s (fst (snd (Mail uni lvl s from))) = to_s s)"
  by (simp add: Mail_def)

theorem Mail_rejected_keeps_session_witness:
  "AllowedSenders (config (sampleSession [''trusted.com''] ''a@trusted.com'' [''c@d.com''])) \<noteq> [] \<and>
   \<not> senderAllowed (\<lambda>s. s) (ToLower (\<lambda>s. s) ''x@evil.com'')
       (AllowedSenders (config (sampleSession [''trusted.com''] ''a@trusted.com'' [''c@d.com'']))) \<and>
   fst (Mail (\<lambda>s. s) LogInfo (sampleSession [''trusted.com''] ''a@trusted.com'' [''c@d.com''])
          ''x@evil.com'') = Some (Errorf ''sender domain not allowed'' []) \<and>
   from_s (fst (snd (Mail (\<lambda>s. s) LogInfo
                       (sampleSession [''trusted.com''] ''a@trusted.com'' [''c@d.com''])
                       ''x@evil.com''))) = ''a@trusted.com''"
proof -
  have h: "AllowedSenders (config (sampleSession [''trusted.com''] ''a@trusted.com'' [''c@d.com''])) \<noteq> [] \<and>
     \<not> senderAllowed (\<lambda>s. s) (ToLower (\<lambda>s. s) ''x@evil.com'')
         (AllowedSenders (config (sampleSession [''trusted.com''] ''a@trusted.com'' [''c@d.com''])))"
    by (simp add: sampleSession_def sampleConfig_def ToLower_def isASCII_def lowerByte_def
          HasSuffix_def char_of_eq_iff)
  show ?thesis
    using h Mail_rejected_keeps_session
      [of "sampleSession [''trusted.com''] ''a@trusted.com'' [''c@d.com'']" "\<lambda>s. s"
          "''x@evil.com''" LogInfo]
    by (simp add: sampleSession_def)
qed

section \<open>The subject in the success record\<close>

lemma characters_ascii: "isASCII s \<Longrightarrow> characters s = length s"
  by (induction s) (auto simp add: characters_def isASCII_def isContinuation_def)

lemma addContentFor_log:
  "snd (addContentFor lib lvl m body ct) = [] \<or>
   (\<exists>err. snd (addContentFor lib lvl m body ct) =
      logWarn lvl ''Failed to parse multipart, sending as plain text: %v'' [VError err])"
  by (auto simp add: addContentFor_def split: prod.splits option.splits)

lemma Data_success_record:
  assumes rd: "ReadMessage lib data = Inr msg"
      and ok: "fst (Data lib lvl s (Inr data) duration) = None"
      and lv: "lvl \<le> LogInfo"
  shows "last (snd (snd (Data lib lvl s (Inr data) duration))) =
        (''[INFO] Email sent successfully: from=%s to=%v subject=%q duration=%v'',
         [VString (from_s s), VStrings (to_s s),
          VString (truncate (decodeHeader lib (Get (Header msg) ''Subject'')) 50),
          VDuration duration])"
proof (cases "MsgBody msg")
  case (Inl err)
  with rd ok show ?thesis by (simp add: Data_def Let_def)
next
  case (Inr body)
  show ?thesis
    using ok lv
    by (simp add: Data_unfold [OF rd Inr] Let_def logInfo_def split: option.splits)
qed

lemma Data_success_log_above_info:
  assumes rd: "ReadMessage lib data = Inr msg"
      and ok: "fst (Data lib lvl s (Inr data) duration) = None"
      and lv: "\<not> lvl \<le> LogInfo"
  shows "list_all (\<lambda>r. fst r = ''[WARN] Failed to parse multipart, sending as plain text: %v'')
           (snd (snd (Data lib lvl s (Inr data) duration)))"
proof (cases "MsgBody msg")
  case (Inl err)
  with rd ok show ?thesis by (simp add: Data_def Let_def)
next
  case (Inr body)
  let ?from = "Get (Header msg) ''From''"
  let ?subject = "decodeHeader lib (Get (Header msg) ''Subject'')"
  let ?ct = "Get (Header msg) ''Content-Type''"
  have lv': "\<not> lvl \<le> LogDebug" using lv by (simp add: LogInfo_def LogDebug_def)
  have sok: "fst (sendViaSendGrid lib lvl s ?from (to_s s) ?subject body ?ct) = None"
    using ok by (simp add: Data_result [OF rd Inr])
  have l2: "snd (snd (sendViaSendGrid lib lvl s ?from (to_s s) ?subject body ?ct)) =
          snd (addContentFor lib lvl (requestFor lib ?from (to_s s) ?subject) body ?ct)"
    using sok lv'
    by (auto simp add: sendViaSendGrid_unfold Let_def logDebug_def split: sum.splits if_splits)
  have "snd (snd (Data lib lvl s (Inr data) duration)) =
          snd (addContentFor lib lvl (requestFor lib ?from (to_s s) ?subject) body ?ct)"
    using sok lv lv' by (simp add: Data_unfold [OF rd Inr] Let_def logDebug_def logInfo_def l2)
  then show ?thesis
    using addContentFor_log [of lib lvl "requestFor lib ?from (to_s s) ?subject" body ?ct]
    by (auto simp add: logWarn_def)
qed

text \<open>
  Claim C6, as the code has it. The subject that \<open>Data\<close> puts into its success record is
  \<open>truncate subject 50\<close> of the decoded \<open>Subject\<close> header, and \<open>truncate\<close> counts bytes, as
  \<open>len\<close> and the slice \<open>s[:50]\<close> of a Go string do: the value is the subject itself when
  it is at most 50 bytes long, and otherwise its first 50 bytes followed by the three
  bytes \<open>...\<close>. For a subject of ASCII bytes only, bytes and characters are the same
  number. The record is written by \<open>logInfo\<close>: when \<open>Data\<close> succeeds and the log level
  admits info records (debug or info) it is the last record \<open>Data\<close> logs; at the levels
  warn and error a successful \<open>Data\<close> logs no such record (all it can log is the warning
  of the multipart fallback).
\<close>

theorem logged_subject_truncated:
  "(length subject \<le> 50 \<longrightarrow> truncate subject 50 = subject) \<and>
   (length subject > 50 \<longrightarrow>
      truncate subject 50 = take 50 subject @ ''...'' \<and> length (take 50 subject) = 50) \<and>
   (isASCII subject \<longrightarrow> characters subject = length subject) \<and>
   (ReadMessage lib data = Inr msg \<and> fst (Data lib lvl s (Inr data) duration) = None \<and>
    lvl \<le> LogInfo \<longrightarrow>
      last (snd (snd (Data lib lvl s (Inr data) duration))) =
        (''[INFO] Email sent successfully: from=%s to=%v subject=%q duration=%v'',
         [VString (from_s s), VStrings (to_s s),
          VString (truncate (decodeHeader lib (Get (Header msg) ''Subject'')) 50),
          VDuration duration])) \<and>
   (ReadMessage lib data = Inr msg \<and> fst (Data lib lvl s (Inr data) duration) = None \<and>
    \<not> lvl \<le> LogInfo \<longrightarrow>
      list_all (\<lambda>r. fst r = ''[WARN] Failed to parse multipart, sending as plain text: %v'')
        (snd (snd (Data lib lvl s (Inr data) duration))))"
proof -
  have a: "length subject \<le> 50 \<longrightarrow> truncate subject 50 = subject"
    by (simp add: truncate_def)
  have b: "length subject > 50 \<longrightarrow>
      truncate subject 50 = take 50 subject @ ''...'' \<and> length (take 50 subject) = 50"
    by (simp add: truncate_def)
  have c: "isASCII subject \<longrightarrow> characters subject = length subject"
    by (simp add: characters_ascii)
  from a b c Data_success_record Data_success_log_above_info show ?thesis by blast
qed

theorem logged_subject_truncated_witness:
  "truncate ''Hi'' 50 = ''Hi'' \<and> characters ''Hi'' = 2 \<and>
   truncate ''Invoice 2024-0193 for ContaCloud services, second reminder'' 50 =
     ''Invoice 2024-0193 for ContaCloud services, second ...'' \<and>
   last (snd (snd (Data
     (sampleLib
        (sampleMessage
           [(''Subject'', ''Invoice 2024-0193 for ContaCloud services, second reminder''),
            (''From'', ''a@b.com''), (''Content-Type'', ''text/plain'')] ''hello'')
        ([], None) (Inr accepted))
     LogInfo (sampleSession [] ''a@b.com'' [''c@d.com'']) (Inr ''raw'') 1500))) =
     (''[INFO] Email sent successfully: from=%s to=%v subject=%q duration=%v'',
      [VString ''a@b.com'', VStrings [''c@d.com''],
       VString ''Invoice 2024-0193 for ContaCloud services, second ...'', VDuration 1500])"
proof -
  let ?msg = "sampleMessage
           [(''Subject'', ''Invoice 2024-0193 for ContaCloud services, second reminder''),
            (''From'', ''a@b.com''), (''Content-Type'', ''text/plain'')] ''hello''"
  let ?lib = "sampleLib ?msg ([], None) (Inr accepted)"
  let ?s = "sampleSession [] ''a@b.com'' [''c@d.com'']"
  have ok: "fst (Data ?lib LogInfo ?s (Inr ''raw'') 1500) = None"
    by (simp add: sample_defs Data_def sendViaSendGrid_def addContentFor_def decodeHeader_def
          Get_def log_defs request_defs HasPrefix_def Let_def)
  have rd: "ReadMessage ?lib ''raw'' = Inr ?msg"
    by (simp add: sampleLib_def)
  have sub: "decodeHeader ?lib (Get (Header ?msg) ''Subject'') =
          ''Invoice 2024-0193 for ContaCloud services, second reminder''"
    by (simp add: sample_defs decodeHeader_def Get_def)
  note T = logged_subject_truncated
      [where subject = "''Invoice 2024-0193 for ContaCloud services, second reminder''"
         and lib = ?lib and data = "''raw''" and msg = ?msg and lvl = LogInfo and s = ?s
         and duration = 1500]
  have t1: "truncate ''Hi'' 50 = ''Hi''"
    using logged_subject_truncated [where subject = "''Hi''"] by simp
  have t2: "truncate ''Invoice 2024-0193 for ContaCloud services, second reminder'' 50 =
     ''Invoice 2024-0193 for ContaCloud services, second ...''"
    using T by simp
  have t3: "last (snd (snd (Data ?lib LogInfo ?s (Inr ''raw'') 1500))) =
        (''[INFO] Email sent successfully: from=%s to=%v subject=%q duration=%v'',
         [VString (from_s ?s), VStrings (to_s ?s),
          VString (truncate (decodeHeader ?lib (Get (Header ?msg) ''Subject'')) 50),
          VDuration 1500])"
    using T ok rd by blast
  have t4: "characters ''Hi'' = 2"
    using logged_subject_truncated [where subject = "''Hi''"] by (simp add: isASCII_def)
  show ?thesis
    unfolding t3 sub t2 using t1 t4 by (simp add: sampleSession_def)
qed

text \<open>
  The claim as it is written fails in two ways. A subject of 26 characters, the letter
  \<open>a\<close> and 25 accented letters of two bytes each, is not logged verbatim: it is 51 bytes
  long, so it is cut after 50 bytes, in the middle of its last character. And at the log
  level warn a successful \<open>Data\<close> logs nothing at all.
\<close>

theorem subject_bytes_counterexample:
  "characters accentedSubject = 26 \<and> length accentedSubject = 51 \<and>
   last (snd (snd (Data
     (sampleLib
        (sampleMessage [(''Subject'', accentedSubject), (''From'', ''a@b.com''),
                        (''Content-Type'', ''text/plain'')] ''hello'')
        ([], None) (Inr accepted))
     LogInfo (sampleSession [] ''a@b.com'' [''c@d.com'']) (Inr ''raw'') 1500))) =
     (''[INFO] Email sent successfully: from=%s to=%v subject=%q duration=%v'',
      [VString ''a@b.com'', VStrings [''c@d.com''],
       VString (CHR ''a'' # concat (replicate 24 [CHR 0xC3, CHR 0xA9]) @ [CHR 0xC3] @ ''...''),
       VDuration 1500]) \<and>
   Data
     (sampleLib
        (sampleMessage [(''Subject'', ''Hi''), (''From'', ''a@b.com''),
                        (''Content-Type'', ''text/plain'')] ''hello'')
        ([], None) (Inr accepted))
     LogWarn (sampleSession [] ''a@b.com'' [''c@d.com'']) (Inr ''raw'') 1500 =
   (None,
    Some \<lparr>From = Some \<lparr>EmailName = [], EmailAddress = ''a@b.com''\<rparr>, Subject = ''Hi'',
          Personalizations = [\<lparr>To = [\<lparr>EmailName = [], EmailAddress = ''c@d.com''\<rparr>]\<rparr>],
          Content = [\<lparr>Type = ''text/plain'', Value = ''hello''\<rparr>]\<rparr>,
    [])"
proof -
  have 1: "characters accentedSubject = 26"
    by (simp add: accentedSubject_def characters_def isContinuation_def eval_nat_numeral)
  have 2: "length accentedSubject = 51"
    by (simp add: accentedSubject_def eval_nat_numeral)
  have 3: "truncate accentedSubject 50 =
             CHR ''a'' # concat (replicate 24 [CHR 0xC3, CHR 0xA9]) @ [CHR 0xC3] @ ''...''"
    by (simp add: accentedSubject_def truncate_def eval_nat_numeral)
  have 4: "last (snd (snd (Data
     (sampleLib
        (sampleMessage [(''Subject'', subj), (''From'', ''a@b.com''),
                        (''Content-Type'', ''text/plain'')] ''hello'')
        ([], None) (Inr accepted))
     LogInfo (sampleSession [] ''a@b.com'' [''c@d.com'']) (Inr ''raw'') 1500))) =
     (''[INFO] Email sent successfully: from=%s to=%v subject=%q duration=%v'',
      [VString ''a@b.com'', VStrings [''c@d.com''], VString (truncate subj 50),
       VDuration 1500])" for subj
    by (simp add: sample_defs Data_def sendViaSendGrid_def addContentFor_def decodeHeader_def
          Get_def log_defs request_defs HasPrefix_def Let_def)
  have 5: "Data
     (sampleLib
        (sampleMessage [(''Subject'', ''Hi''), (''From'', ''a@b.com''),
                        (''Content-Type'', ''text/plain'')] ''hello'')
        ([], None) (Inr accepted))
     LogWarn (sampleSession [] ''a@b.com'' [''c@d.com'']) (Inr ''raw'') 1500 =
   (None,
    Some \<lparr>From = Some \<lparr>EmailName = [], EmailAddress = ''a@b.com''\<rparr>, Subject = ''Hi'',
          Personalizations = [\<lparr>To = [\<lparr>EmailName = [], EmailAddress = ''c@d.com''\<rparr>]\<rparr>],
          Content = [\<lparr>Type = ''text/plain'', Value = ''hello''\<rparr>]\<rparr>,
    [])"
    by (simp add: sample_defs Data_def sendViaSendGrid_def addContentFor_def decodeHeader_def
          Get_def log_defs request_defs HasPrefix_def Let_def)
  from 1 2 4 [of accentedSubject] 5 show ?thesis unfolding 3 by simp
qed

section \<open>The provider's response\<close>

text \<open>
  Claim C8. \<open>sendViaSendGrid\<close> hands its request to the client and reads the answer: a
  transport error fails the transaction with an error that wraps it; a response with a
  status code of 400 or more fails it with an error that carries the status code and the
  response body; a response with any status code below 400 is a success. \<open>Data\<close> returns
  to the protocol engine what \<open>sendViaSendGrid\<close> returns.
\<close>

theorem sendgrid_response_outcome:
  "(case sendViaSendGrid lib lvl s from to subject body contentType of
      (result, message, log) \<Rightarrow>
        (case Send lib (SendGridAPIKey (config s)) message of
           Inl err \<Rightarrow> result = Some (Errorf ''sendgrid API error: %w'' [VError err])
         | Inr response \<Rightarrow>
             if StatusCode response \<ge> 400
             then result = Some (Errorf ''sendgrid returned status %d: %s''
                                   [VInt (StatusCode response), VString (Body response)])
             else result = None)) \<and>
   (ReadMessage lib data = Inr msg \<and> MsgBody msg = Inr body \<longrightarrow>
      fst (Data lib lvl s (Inr data) duration) =
        fst (sendViaSendGrid lib lvl s (Get (Header msg) ''From'') (to_s s)
               (decodeHeader lib (Get (Header msg) ''Subject'')) body
               (Get (Header msg) ''Content-Type'')))"
proof -
  have 1: "(case sendViaSendGrid lib lvl s from to subject body contentType of
      (result, message, log) \<Rightarrow>
        (case Send lib (SendGridAPIKey (config s)) message of
           Inl err \<Rightarrow> result = Some (Errorf ''sendgrid API error: %w'' [VError err])
         | Inr response \<Rightarrow>
             if StatusCode response \<ge> 400
             then result = Some (Errorf ''sendgrid returned status %d: %s''
                                   [VInt (StatusCode response), VString (Body response)])
             else result = None))"
    by (simp add: sendViaSendGrid_unfold Let_def split_beta split: sum.splits)
  from 1 Data_result show ?thesis by blast
qed

theorem sendgrid_response_outcome_witness:
  "fst (Data
          (sampleLib
             (sampleMessage [(''Subject'', ''Hi''), (''From'', ''a@b.com''),
                             (''Content-Type'', ''text/plain'')] ''hello'')
             ([], None) (Inr \<lparr>StatusCode = 500, Body = ''rate limited''\<rparr>))
          LogInfo (sampleSession [] ''a@b.com'' [''c@d.com'']) (Inr ''raw'') 1500) =
     Some (Errorf ''sendgrid returned status %d: %s'' [VInt 500, VString ''rate limited'']) \<and>
   fst (Data
          (sampleLib
             (sampleMessage [(''Subject'', ''Hi''), (''From'', ''a@b.com''),
                             (''Content-Type'', ''text/plain'')] ''hello'')
             ([], None) (Inr accepted))
          LogInfo (sampleSession [] ''a@b.com'' [''c@d.com'']) (Inr ''raw'') 1500) = None \<and>
   fst (Data
          (sampleLib
             (sampleMessage [(''Subject'', ''Hi''), (''From'', ''a@b.com''),
                             (''Content-Type'', ''text/plain'')] ''hello'')
             ([], None) (Inl (ExtError ''connection refused'')))
          LogInfo (sampleSession [] ''a@b.com'' [''c@d.com'']) (Inr ''raw'') 1500) =
     Some (Errorf ''sendgrid API error: %w'' [VError (ExtError ''connection refused'')])"
  using sendgrid_response_outcome
      [where lib = "sampleLib
                      (sampleMessage [(''Subject'', ''Hi''), (''From'', ''a@b.com''),
                                      (''Content-Type'', ''text/plain'')] ''hello'')
                      ([], None) (Inr \<lparr>StatusCode = 500, Body = ''rate limited''\<rparr>)"
         and lvl = LogInfo and s = "sampleSession [] ''a@b.com'' [''c@d.com'']"
         and ?from = "''a@b.com''" and to = "[''c@d.com'']" and subject = "''Hi''"
         and body = "''hello''" and contentType = "''text/plain''" and data = "''raw''"
         and msg = "sampleMessage [(''Subject'', ''Hi''), (''From'', ''a@b.com''),
                                   (''Content-Type'', ''text/plain'')] ''hello''"
         and duration = 1500]
    sendgrid_response_outcome
      [where lib = "sampleLib
                      (sampleMessage [(''Subject'', ''Hi''), (''From'', ''a@b.com''),
                                      (''Content-Type'', ''text/plain'')] ''hello'')
                      ([], None) (Inr accepted)"
         and lvl = LogInfo and s = "sampleSession [] ''a@b.com'' [''c@d.com'']"
         and ?from = "''a@b.com''" and to = "[''c@d.com'']" and subject = "''Hi''"
         and body = "''hello''" and contentType = "''text/plain''" and data = "''raw''"
         and msg = "sampleMessage [(''Subject'', ''Hi''), (''From'', ''a@b.com''),
                                   (''Content-Type'', ''text/plain'')] ''hello''"
         and duration = 1500]
    sendgrid_response_outcome
      [where lib = "sampleLib
                      (sampleMessage [(''Subject'', ''Hi''), (''From'', ''a@b.com''),
                                      (''Content-Type'', ''text/plain'')] ''hello'')
                      ([], None) (Inl (ExtError ''connection refused''))"
         and lvl = LogInfo and s = "sampleSession [] ''a@b.com'' [''c@d.com'']"
         and ?from = "''a@b.com''" and to = "[''c@d.com'']" and subject = "''Hi''"
         and body = "''hello''" and contentType = "''text/plain''" and data = "''raw''"
         and msg = "sampleMessage [(''Subject'', ''Hi''), (''From'', ''a@b.com''),
                                   (''Content-Type'', ''text/plain'')] ''hello''"
         and duration = 1500]
  by (simp add: sample_defs Get_def decodeHeader_def split_beta)

section \<open>The sender of the request\<close>

text \<open>
  Claim C10. When \<open>Data\<close> gets as far as building a request, the sender of the request
  comes from the \<open>From\<close> header of the message: the parsed address when
  \<open>mail.ParseAddress\<close> accepts the header value, and otherwise the header value with its
  leading and trailing angle brackets removed and an empty display name. When the header
  is absent the value is the empty string, and so is the address of the request. The
  envelope sender stored by \<open>Mail\<close> has no part in it: the request is the same for every
  stored sender.
\<close>

theorem request_from_is_header_From:
  assumes "ReadMessage lib data = Inr msg" and "MsgBody msg = Inr body"
  shows "\<exists>message.
           fst (snd (Data lib lvl s (Inr data) duration)) = Some message \<and>
           From message =
             Some (case ParseAddress lib (Get (Header msg) ''From'') of
                     Inl err \<Rightarrow> NewEmail [] (Trim (Get (Header msg) ''From'') ''<>'')
                   | Inr a \<Rightarrow> NewEmail (Name a) (Address a)) \<and>
           (Header msg ''From'' = None \<and> (\<exists>err. ParseAddress lib [] = Inl err) \<longrightarrow>
              From message = Some (NewEmail [] [])) \<and>
           fst (snd (Data lib lvl (s\<lparr>from_s := envelope\<rparr>) (Inr data) duration)) = Some message"
proof -
  let ?from = "Get (Header msg) ''From''"
  let ?m = "fst (snd (sendViaSendGrid lib lvl s ?from (to_s s)
                        (decodeHeader lib (Get (Header msg) ''Subject'')) body
                        (Get (Header msg) ''Content-Type'')))"
  have 1: "fst (snd (Data lib lvl s (Inr data) duration)) = Some ?m"
    using assms by (rule Data_request)
  have 2: "From ?m = Some (case ParseAddress lib ?from of
                     Inl err \<Rightarrow> NewEmail [] (Trim ?from ''<>'')
                   | Inr a \<Rightarrow> NewEmail (Name a) (Address a))"
    by (simp add: sendViaSendGrid_message addContentFor_frame requestFor_def
          AddPersonalizations_def SetFrom_def)
  have 3: "Header msg ''From'' = None \<and> (\<exists>err. ParseAddress lib [] = Inl err) \<longrightarrow>
             From ?m = Some (NewEmail [] [])"
  proof
    assume a: "Header msg ''From'' = None \<and> (\<exists>err. ParseAddress lib [] = Inl err)"
    then have "?from = []" by (simp add: Get_def)
    with a 2 show "From ?m = Some (NewEmail [] [])" by (auto simp add: Trim_def)
  qed
  have 4: "fst (snd (Data lib lvl (s\<lparr>from_s := envelope\<rparr>) (Inr data) duration)) = Some ?m"
    using Data_request [OF assms, of lvl "s\<lparr>from_s := envelope\<rparr>" duration]
    by (simp add: sendViaSendGrid_message)
  from 1 2 3 4 show ?thesis by blast
qed

theorem request_from_is_header_From_witness:
  "from_s (sampleSession [] ''a@b.com'' [''c@d.com'']) = ''a@b.com'' \<and>
   map_option From (fst (snd (Data
     (sampleLib (sampleMessage [(''Subject'', ''Hi''), (''Content-Type'', ''text/plain'')] ''hello'')
        ([], None) (Inr accepted))
     LogInfo (sampleSession [] ''a@b.com'' [''c@d.com'']) (Inr ''raw'') 1500))) =
     Some (Some \<lparr>EmailName = [], EmailAddress = []\<rparr>) \<and>
   map_option From (fst (snd (Data
     (sampleLib (sampleMessage [(''From'', ''<<broken>''), (''Content-Type'', ''text/plain'')] ''hello'')
        ([], None) (Inr accepted))
     LogInfo (sampleSession [] ''a@b.com'' [''c@d.com'']) (Inr ''raw'') 1500))) =
     Some (Some \<lparr>EmailName = [], EmailAddress = ''broken''\<rparr>)"
proof -
  let ?m1 = "sampleMessage [(''Subject'', ''Hi''), (''Content-Type'', ''text/plain'')] ''hello''"
  let ?m2 = "sampleMessage [(''From'', ''<<broken>''), (''Content-Type'', ''text/plain'')] ''hello''"
  let ?s = "sampleSession [] ''a@b.com'' [''c@d.com'']"
  have r1: "ReadMessage (sampleLib ?m1 ([], None) (Inr accepted)) ''raw'' = Inr ?m1"
    and r2: "ReadMessage (sampleLib ?m2 ([], None) (Inr accepted)) ''raw'' = Inr ?m2"
    by (simp_all add: sampleLib_def)
  have b1: "MsgBody ?m1 = Inr ''hello''" and b2: "MsgBody ?m2 = Inr ''hello''"
    by (simp_all add: sampleMessage_def)
  show ?thesis
    using request_from_is_header_From
        [OF r1 b1, where lvl = LogInfo and s = ?s and duration = 1500 and envelope = "[]"]
      request_from_is_header_From
        [OF r2 b2, where lvl = LogInfo and s = ?s and duration = 1500 and envelope = "[]"]
    by (auto simp add: sample_defs Get_def Trim_def NewEmail_def)
qed

section \<open>Content blocks\<close>

lemma handleMultipart_error_unchanged:
  assumes "fst (handleMultipart lib m body ct) = Some e"
  shows "snd (handleMultipart lib m body ct) = m"
  using assms
  by (auto simp add: handleMultipart_def Let_def split: sum.splits prod.splits if_splits)

lemma handleMultipart_ok_content:
  assumes "fst (handleMultipart lib m body ct) = None"
  shows "\<exists>bs. snd (handleMultipart lib m body ct) = m\<lparr>Content := Content m @ bs\<rparr> \<and>
              bs \<noteq> [] \<and> list_all (\<lambda>c. Value c \<noteq> []) bs"
  using assms
  by (auto simp add: handleMultipart_def Let_def AddContent_def NewContent_def
        split: sum.splits prod.splits if_splits)

lemma handleMultipart_no_content:
  assumes "ParseMediaType lib ct = Inr (mediaType, params)"
      and "HasPrefix mediaType ''multipart/''"
      and "params ''boundary'' = Some boundary" and "boundary \<noteq> []"
      and "NextParts lib body boundary = (parts, fin)"
      and "partsLoop parts fin [] [] = Inr ([], [])"
  shows "handleMultipart lib m body ct = (Some (Errorf ''no text or html content found'' []), m)"
  using assms by (simp add: handleMultipart_def)

lemma addContentFor_multipart_failed:
  assumes "Contains ct ''multipart/''" and "fst (handleMultipart lib m body ct) = Some err"
  shows "addContentFor lib lvl m body ct =
           (AddContent m (NewContent ''text/plain'' body),
            logWarn lvl ''Failed to parse multipart, sending as plain text: %v'' [VError err])"
proof -
  have "handleMultipart lib m body ct = (Some err, m)"
    using assms(2) handleMultipart_error_unchanged [OF assms(2)]
    by (metis prod.collapse)
  then show ?thesis using assms(1) by (simp add: addContentFor_def)
qed

lemma addContentFor_content:
  "\<exists>bs. Content (fst (addContentFor lib lvl m body ct)) = Content m @ bs \<and> bs \<noteq> [] \<and>
         list_all (\<lambda>c. Value c \<noteq> [] \<or> Value c = body) bs"
proof (cases "Contains ct ''multipart/''")
  case False
  then show ?thesis
    by (simp add: addContentFor_def AddContent_def NewContent_def)
next
  case True
  show ?thesis
  proof (cases "fst (handleMultipart lib m body ct)")
    case (Some err)
    show ?thesis
      by (simp add: addContentFor_multipart_failed [OF True Some] AddContent_def NewContent_def)
  next
    case None
    from handleMultipart_ok_content [OF None] obtain bs where
      bs: "snd (handleMultipart lib m body ct) = m\<lparr>Content := Content m @ bs\<rparr>"
        "bs \<noteq> []" "list_all (\<lambda>c. Value c \<noteq> []) bs" by blast
    have "handleMultipart lib m body ct = (None, m\<lparr>Content := Content m @ bs\<rparr>)"
      using None bs(1) by (metis prod.collapse)
    then have "Content (fst (addContentFor lib lvl m body ct)) = Content m @ bs"
      using True by (simp add: addContentFor_def)
    moreover have "list_all (\<lambda>c. Value c \<noteq> [] \<or> Value c = body) bs"
      using bs(3) by (simp add: list_all_iff)
    ultimately show ?thesis using bs(2) by blast
  qed
qed

lemma requestFor_Content: "Content (requestFor lib from to subject) = []"
  by (simp add: requestFor_def request_defs)

lemma sendViaSendGrid_fallback_content:
  assumes "Contains ct ''multipart/''"
      and "fst (handleMultipart lib (requestFor lib from to subject) body ct) = Some err"
  shows "Content (fst (snd (sendViaSendGrid lib lvl s from to subject body ct))) =
           [NewContent ''text/plain'' body]"
  by (simp add: sendViaSendGrid_message addContentFor_multipart_failed [OF assms]
        AddContent_def requestFor_Content)






text \<open>
  Claim C1, as the code has it. The request always has at least one content block, and
  when the raw body is not empty no block has an empty body. \<open>handleMultipart\<close> adds only
  blocks with a non-empty body, at least one when it succeeds and none when it fails, and
  it fails explicitly when its loop ends with no text and no html content. The send does
  not fail then: \<open>sendViaSendGrid\<close> submits the raw body as one \<open>text/plain\<close> block, whose
  body is empty when the raw body is.
\<close>

theorem content_blocks_of_request:
  "Content (fst (snd (sendViaSendGrid lib lvl s from to subject body ct))) \<noteq> [] \<and>
   (body \<noteq> [] \<longrightarrow>
      list_all (\<lambda>c. Value c \<noteq> [])
        (Content (fst (snd (sendViaSendGrid lib lvl s from to subject body ct))))) \<and>
   (fst (handleMultipart lib m body ct) = None \<longrightarrow>
      (\<exists>bs. snd (handleMultipart lib m body ct) = m\<lparr>Content := Content m @ bs\<rparr> \<and>
            bs \<noteq> [] \<and> list_all (\<lambda>c. Value c \<noteq> []) bs)) \<and>
   (fst (handleMultipart lib m body ct) \<noteq> None \<longrightarrow> snd (handleMultipart lib m body ct) = m) \<and>
   (Contains ct ''multipart/'' \<and> ParseMediaType lib ct = Inr (mediaType, params) \<and>
    HasPrefix mediaType ''multipart/'' \<and> params ''boundary'' = Some boundary \<and>
    boundary \<noteq> [] \<and> NextParts lib body boundary = (parts, fin) \<and>
    partsLoop parts fin [] [] = Inr ([], []) \<longrightarrow>
      fst (handleMultipart lib m body ct) = Some (Errorf ''no text or html content found'' []) \<and>
      Content (fst (snd (sendViaSendGrid lib lvl s from to subject body ct))) =
        [NewContent ''text/plain'' body])"
proof -
  let ?req = "fst (snd (sendViaSendGrid lib lvl s from to subject body ct))"
  obtain bs where bs: "Content ?req = bs" "bs \<noteq> []"
    "list_all (\<lambda>c. Value c \<noteq> [] \<or> Value c = body) bs"
    using addContentFor_content [of lib lvl "requestFor lib from to subject" body ct]
    by (auto simp add: sendViaSendGrid_message requestFor_Content)
  have 1: "Content ?req \<noteq> []" using bs by simp
  have 2: "body \<noteq> [] \<longrightarrow> list_all (\<lambda>c. Value c \<noteq> []) (Content ?req)"
    using bs by (auto simp add: list_all_iff)
  have 3: "fst (handleMultipart lib m body ct) = None \<longrightarrow>
      (\<exists>bs. snd (handleMultipart lib m body ct) = m\<lparr>Content := Content m @ bs\<rparr> \<and>
            bs \<noteq> [] \<and> list_all (\<lambda>c. Value c \<noteq> []) bs)"
    using handleMultipart_ok_content by blast
  have 4: "fst (handleMultipart lib m body ct) \<noteq> None \<longrightarrow>
             snd (handleMultipart lib m body ct) = m"
    using handleMultipart_error_unchanged by blast
  have 5: "fst (handleMultipart lib m body ct) = Some (Errorf ''no text or html content found'' []) \<and>
      Content ?req = [NewContent ''text/plain'' body]"
    if h: "Contains ct ''multipart/''" "ParseMediaType lib ct = Inr (mediaType, params)"
      "HasPrefix mediaType ''multipart/''" "params ''boundary'' = Some boundary"
      "boundary \<noteq> []" "NextParts lib body boundary = (parts, fin)"
      "partsLoop parts fin [] [] = Inr ([], [])"
  proof -
    have a: "\<And>m'. fst (handleMultipart lib m' body ct) =
               Some (Errorf ''no text or html content found'' [])"
      using handleMultipart_no_content [OF h(2-7)] by simp
    from a [of m] sendViaSendGrid_fallback_content [OF h(1) a] show ?thesis by simp
  qed
  from 1 2 3 4 5 show ?thesis by blast
qed

theorem content_blocks_of_request_witness:
  "fst (handleMultipart
          (sampleLib (sampleMessage [] []) ([samplePart ''application/pdf'' ''%PDF-1.4''], None)
             (Inr accepted))
          NewV3Mail ''--XX (one pdf part) --XX--'' ''multipart/alternative; boundary=XX'') =
     Some (Errorf ''no text or html content found'' []) \<and>
   Content (fst (snd (sendViaSendGrid
     (sampleLib (sampleMessage [] []) ([samplePart ''application/pdf'' ''%PDF-1.4''], None)
        (Inr accepted))
     LogInfo (sampleSession [] ''a@b.com'' [''c@d.com'']) ''a@b.com'' [''c@d.com''] ''Hi''
     ''--XX (one pdf part) --XX--'' ''multipart/alternative; boundary=XX''))) =
     [\<lparr>Type = ''text/plain'', Value = ''--XX (one pdf part) --XX--''\<rparr>] \<and>
   snd (handleMultipart
          (sampleLib (sampleMessage [] []) ([samplePart ''text/plain'' ''hello''], None)
             (Inr accepted))
          NewV3Mail ''--XX (one text part) --XX--'' ''multipart/alternative; boundary=XX'') =
     NewV3Mail\<lparr>Content := [\<lparr>Type = ''text/plain'', Value = ''hello''\<rparr>]\<rparr>"
proof -
  let ?libA = "sampleLib (sampleMessage [] [])
                 ([samplePart ''application/pdf'' ''%PDF-1.4''], None) (Inr accepted)"
  let ?libB = "sampleLib (sampleMessage [] [])
                 ([samplePart ''text/plain'' ''hello''], None) (Inr accepted)"
  let ?ct = "''multipart/alternative; boundary=XX''"
  have h: "Contains ?ct ''multipart/'' \<and>
      ParseMediaType ?libA ?ct = Inr (''multipart/alternative'', [''boundary'' \<mapsto> ''XX'']) \<and>
      HasPrefix ''multipart/alternative'' ''multipart/'' \<and>
      [''boundary'' \<mapsto> ''XX''] ''boundary'' = Some ''XX'' \<and> ''XX'' \<noteq> [] \<and>
      NextParts ?libA ''--XX (one pdf part) --XX--'' ''XX'' =
        ([samplePart ''application/pdf'' ''%PDF-1.4''], None) \<and>
      partsLoop [samplePart ''application/pdf'' ''%PDF-1.4''] None [] [] = Inr ([], [])"
    by (simp add: sample_defs HasPrefix_def Get_def)
  have ok: "fst (handleMultipart ?libB NewV3Mail ''--XX (one text part) --XX--'' ?ct) = None"
    by (simp add: handleMultipart_def sample_defs HasPrefix_def Get_def Let_def)
  have B: "snd (handleMultipart ?libB NewV3Mail ''--XX (one text part) --XX--'' ?ct) =
             NewV3Mail\<lparr>Content := [\<lparr>Type = ''text/plain'', Value = ''hello''\<rparr>]\<rparr>"
    by (simp add: handleMultipart_def sample_defs HasPrefix_def Get_def Let_def request_defs)
  note A = content_blocks_of_request
      [where lib = ?libA and lvl = LogInfo and s = "sampleSession [] ''a@b.com'' [''c@d.com'']"
         and ?from = "''a@b.com''" and to = "[''c@d.com'']" and subject = "''Hi''"
         and body = "''--XX (one pdf part) --XX--''" and ct = ?ct and m = NewV3Mail
         and mediaType = "''multipart/alternative''" and params = "[''boundary'' \<mapsto> ''XX'']"
         and boundary = "''XX''" and parts = "[samplePart ''application/pdf'' ''%PDF-1.4'']"
         and fin = None]
  from A h have
    "fst (handleMultipart ?libA NewV3Mail ''--XX (one pdf part) --XX--'' ?ct) =
       Some (Errorf ''no text or html content found'' []) \<and>
     Content (fst (snd (sendViaSendGrid ?libA LogInfo
        (sampleSession [] ''a@b.com'' [''c@d.com'']) ''a@b.com'' [''c@d.com''] ''Hi''
        ''--XX (one pdf part) --XX--'' ?ct))) = [NewContent ''text/plain'' ''--XX (one pdf part) --XX--'']"
    by blast
  with B show ?thesis by (simp add: NewContent_def)
qed

text \<open>
  The claim as it is written fails on a multipart message with an empty body: no part
  can be extracted, and yet the send does not fail. The request goes out with one
  \<open>text/plain\<close> block whose body is the empty string, and \<open>Data\<close> returns no error.
\<close>

theorem empty_content_block_counterexample:
  "Data (sampleLib
           (sampleMessage [(''Subject'', ''Hi''), (''From'', ''a@b.com''),
                           (''Content-Type'', ''multipart/alternative; boundary=XX'')] [])
           ([], Some (ExtError ''multipart: NextPart: EOF'')) (Inr accepted))
     LogInfo (sampleSession [] ''a@b.com'' [''c@d.com'']) (Inr ''raw'') 1500 =
   (None,
    Some \<lparr>From = Some \<lparr>EmailName = [], EmailAddress = ''a@b.com''\<rparr>, Subject = ''Hi'',
          Personalizations = [\<lparr>To = [\<lparr>EmailName = [], EmailAddress = ''c@d.com''\<rparr>]\<rparr>],
          Content = [\<lparr>Type = ''text/plain'', Value = []\<rparr>]\<rparr>,
    [(''[WARN] Failed to parse multipart, sending as plain text: %v'',
      [VError (ExtError ''multipart: NextPart: EOF'')]),
     (''[INFO] Email sent successfully: from=%s to=%v subject=%q duration=%v'',
      [VString ''a@b.com'', VStrings [''c@d.com''], VString ''Hi'', VDuration 1500])])"
  by (simp add: sample_defs Data_def sendViaSendGrid_def addContentFor_def handleMultipart_def
        decodeHeader_def Get_def log_defs request_defs HasPrefix_def truncate_def Let_def)

section \<open>Multipart messages with a text and an html part\<close>

lemma lastBody_Nil: "lastBody kind [] dflt = dflt"
  by (simp add: lastBody_def)

lemma lastBody_Cons:
  "lastBody kind (p # ps) dflt = lastBody kind ps (if kind p then readBody p else dflt)"
  by (simp add: lastBody_def)

lemma partsLoop_eof:
  "partsLoop parts None textContent htmlContent =
     Inr (lastBody isPlainPart parts textContent, lastBody isHtmlPart parts htmlContent)"
proof (induction parts arbitrary: textContent htmlContent)
  case Nil
  show ?case by (simp add: lastBody_Nil)
next
  case (Cons p ps)
  show ?case
  proof (cases "PartBody p")
    case (Inl err)
    then show ?thesis
      by (simp add: Cons.IH lastBody_Cons isPlainPart_def isHtmlPart_def isReadable_def)
  next
    case (Inr b)
    then show ?thesis
      by (simp add: Cons.IH lastBody_Cons isPlainPart_def isHtmlPart_def isReadable_def
            readBody_def)
  qed
qed

lemma partsLoop_error: "partsLoop parts (Some err) textContent htmlContent = Inl err"
  by (induction parts arbitrary: textContent htmlContent)
     (simp_all add: Let_def split: sum.splits)

lemma handleMultipart_eof:
  assumes "ParseMediaType lib ct = Inr (mediaType, params)"
      and "HasPrefix mediaType ''multipart/''"
      and "params ''boundary'' = Some boundary" and "boundary \<noteq> []"
      and "NextParts lib body boundary = (parts, None)"
      and "lastBody isPlainPart parts [] = t" and "lastBody isHtmlPart parts [] = h"
      and "t \<noteq> []" and "h \<noteq> []"
  shows "handleMultipart lib m body ct =
           (None, m\<lparr>Content := Content m @ [NewContent ''text/html'' h, NewContent ''text/plain'' t]\<rparr>)"
  using assms by (simp add: handleMultipart_def partsLoop_eof AddContent_def)

text \<open>
  Claim C4, as the code has it. Take a message
  \<^item> whose raw \<open>Content-Type\<close> header contains the string \<open>multipart/\<close> as it is written
    here, in lower case (the test of \<open>sendViaSendGrid\<close> is a substring test on the raw
    header and does not fold case),
  \<^item> whose media type parses to a type that starts with \<open>multipart/\<close>, with a boundary
    parameter that is not empty,
  \<^item> and whose parts are all delivered by the reader (the walk ends with \<open>io.EOF\<close>).
  A part is a plain-text part when it can be read and its own \<open>Content-Type\<close> header
  contains the string \<open>text/plain\<close> as written, in lower case; it is an html part when it can
  be read and its header contains \<open>text/html\<close> as written and does not contain
  \<open>text/plain\<close>. When the message has a part of each kind and the last part of each kind
  has a body that is not empty, the request carries exactly two content blocks: the
  \<open>text/html\<close> block with the body of the last html part, then the \<open>text/plain\<close> block with
  the body of the last plain-text part.
\<close>

theorem multipart_both_parts:
  assumes "Contains contentType ''multipart/''"
      and "ParseMediaType lib contentType = Inr (mediaType, params)"
      and "HasPrefix mediaType ''multipart/''"
      and "params ''boundary'' = Some boundary" and "boundary \<noteq> []"
      and "NextParts lib body boundary = (parts, None)"
      and "filter isPlainPart parts \<noteq> []" and "filter isHtmlPart parts \<noteq> []"
      and "readBody (last (filter isPlainPart parts)) \<noteq> []"
      and "readBody (last (filter isHtmlPart parts)) \<noteq> []"
  shows "Content (fst (snd (sendViaSendGrid lib lvl s from to subject body contentType))) =
           [NewContent ''text/html'' (readBody (last (filter isHtmlPart parts))),
            NewContent ''text/plain'' (readBody (last (filter isPlainPart parts)))]"
proof -
  let ?t = "readBody (last (filter isPlainPart parts))"
  let ?h = "readBody (last (filter isHtmlPart parts))"
  have t: "lastBody isPlainPart parts [] = ?t" using assms(7) by (simp add: lastBody_def)
  have h: "lastBody isHtmlPart parts [] = ?h" using assms(8) by (simp add: lastBody_def)
  have "handleMultipart lib (requestFor lib from to subject) body contentType =
          (None, (requestFor lib from to subject)
                   \<lparr>Content := Content (requestFor lib from to subject) @
                      [NewContent ''text/html'' ?h, NewContent ''text/plain'' ?t]\<rparr>)"
    using assms(2-6) t h assms(9,10) by (rule handleMultipart_eof)
  then show ?thesis
    using assms(1)
    by (simp add: sendViaSendGrid_message addContentFor_def requestFor_Content)
qed

theorem multipart_both_parts_witness:
  "filter isPlainPart
     [samplePart ''text/plain'' ''old'', samplePart ''text/html; charset=utf-8'' ''<p>Hi</p>'',
      samplePart ''text/plain'' ''Hi''] =
     [samplePart ''text/plain'' ''old'', samplePart ''text/plain'' ''Hi''] \<and>
   filter isHtmlPart
     [samplePart ''text/plain'' ''old'', samplePart ''text/html; charset=utf-8'' ''<p>Hi</p>'',
      samplePart ''text/plain'' ''Hi''] =
     [samplePart ''text/html; charset=utf-8'' ''<p>Hi</p>''] \<and>
   Content (fst (snd (sendViaSendGrid
     (sampleLib (sampleMessage [] [])
        ([samplePart ''text/plain'' ''old'',
          samplePart ''text/html; charset=utf-8'' ''<p>Hi</p>'',
          samplePart ''text/plain'' ''Hi''], None)
        (Inr accepted))
     LogInfo (sampleSession [] ''a@b.com'' [''c@d.com'']) ''a@b.com'' [''c@d.com''] ''Hi''
     ''--XX (three parts) --XX--'' ''multipart/alternative; boundary=XX''))) =
     [\<lparr>Type = ''text/html'', Value = ''<p>Hi</p>''\<rparr>, \<lparr>Type = ''text/plain'', Value = ''Hi''\<rparr>]"
proof -
  let ?parts = "[samplePart ''text/plain'' ''old'',
                 samplePart ''text/html; charset=utf-8'' ''<p>Hi</p>'',
                 samplePart ''text/plain'' ''Hi'']"
  let ?lib = "sampleLib (sampleMessage [] []) (?parts, None) (Inr accepted)"
  let ?ct = "''multipart/alternative; boundary=XX''"
  have p: "filter isPlainPart ?parts =
             [samplePart ''text/plain'' ''old'', samplePart ''text/plain'' ''Hi'']"
    and h: "filter isHtmlPart ?parts = [samplePart ''text/html; charset=utf-8'' ''<p>Hi</p>'']"
    by (simp_all add: isPlainPart_def isHtmlPart_def isReadable_def samplePart_def Get_def
          HasPrefix_def)
  have c: "Contains ?ct ''multipart/''" by (simp add: HasPrefix_def)
  have pm: "ParseMediaType ?lib ?ct = Inr (''multipart/alternative'', [''boundary'' \<mapsto> ''XX''])"
    by (simp add: sampleLib_def sampleParseMediaType_def)
  have pre: "HasPrefix ''multipart/alternative'' ''multipart/''" by (simp add: HasPrefix_def)
  have b: "[''boundary'' \<mapsto> ''XX''] ''boundary'' = Some ''XX''" and ne: "''XX'' \<noteq> []"
    by simp_all
  have np: "NextParts ?lib ''--XX (three parts) --XX--'' ''XX'' = (?parts, None)"
    by (simp add: sampleLib_def)
  have fp: "filter isPlainPart ?parts \<noteq> []" and fh: "filter isHtmlPart ?parts \<noteq> []"
    unfolding p h by simp_all
  have lp: "readBody (last (filter isPlainPart ?parts)) \<noteq> []"
    and lh: "readBody (last (filter isHtmlPart ?parts)) \<noteq> []"
    unfolding p h by (simp_all add: readBody_def samplePart_def)
  show ?thesis
    using multipart_both_parts [OF c pm pre b ne np fp fh lp lh,
        where lvl = LogInfo and s = "sampleSession [] ''a@b.com'' [''c@d.com'']"
          and ?from = "''a@b.com''" and to = "[''c@d.com'']" and subject = "''Hi''"]
    unfolding p h by (simp add: readBody_def samplePart_def NewContent_def)
qed

text \<open>
  The claim as it is written fails in three ways, each on a well-formed message with a
  text part and an html part. When the plain-text part has an empty body, the request
  has one block, the html one. When the media type of the message is written
  \<open>Multipart/Alternative\<close>, the multipart walk is not entered and the request has one
  \<open>text/plain\<close> block with the raw body. When the type of the text part is written
  \<open>TEXT/PLAIN\<close>, that part is passed over and the request has one block, the html one.
\<close>

theorem multipart_two_blocks_counterexample:
  "isPlainPart (samplePart ''text/plain'' []) \<and>
   isHtmlPart (samplePart ''text/html'' ''<p>Hi</p>'') \<and>
   Content (fst (snd (sendViaSendGrid
     (sampleLib (sampleMessage [] [])
        ([samplePart ''text/plain'' [], samplePart ''text/html'' ''<p>Hi</p>''], None)
        (Inr accepted))
     LogInfo (sampleSession [] ''a@b.com'' [''c@d.com'']) ''a@b.com'' [''c@d.com''] ''Hi''
     ''--XX (two parts) --XX--'' ''multipart/alternative; boundary=XX''))) =
     [\<lparr>Type = ''text/html'', Value = ''<p>Hi</p>''\<rparr>] \<and>
   Content (fst (snd (sendViaSendGrid
     (sampleLib (sampleMessage [] [])
        ([samplePart ''text/plain'' ''Hi'', samplePart ''text/html'' ''<p>Hi</p>''], None)
        (Inr accepted))
     LogInfo (sampleSession [] ''a@b.com'' [''c@d.com'']) ''a@b.com'' [''c@d.com''] ''Hi''
     ''--XX (two parts) --XX--'' ''Multipart/Alternative; boundary=XX''))) =
     [\<lparr>Type = ''text/plain'', Value = ''--XX (two parts) --XX--''\<rparr>] \<and>
   Content (fst (snd (sendViaSendGrid
     (sampleLib (sampleMessage [] [])
        ([samplePart ''TEXT/PLAIN'' ''Hi'', samplePart ''text/html'' ''<p>Hi</p>''], None)
        (Inr accepted))
     LogInfo (sampleSession [] ''a@b.com'' [''c@d.com'']) ''a@b.com'' [''c@d.com''] ''Hi''
     ''--XX (two parts) --XX--'' ''multipart/alternative; boundary=XX''))) =
     [\<lparr>Type = ''text/html'', Value = ''<p>Hi</p>''\<rparr>]"
  by (simp add: isPlainPart_def isHtmlPart_def isReadable_def sample_defs Get_def HasPrefix_def
        sendViaSendGrid_def addContentFor_def handleMultipart_def request_defs Let_def)

section \<open>The allow-list check of Mail\<close>



lemma Mail_accepts_iff:
  "fst (Mail uni lvl s from) = None \<longleftrightarrow>
     (AllowedSenders (config s) = [] \<or>
      senderAllowed uni (ToLower uni from) (AllowedSenders (config s)))"
  by (simp add: Mail_def)



lemma lowerByte_eq_gt: "lowerByte c = CHR ''>'' \<longleftrightarrow> c = CHR ''>''"
proof (cases "65 \<le> (of_char c :: nat) \<and> (of_char c :: nat) \<le> 90")
  case False
  then show ?thesis by (auto simp add: lowerByte_def)
next
  case True
  then have "(of_char (lowerByte c) :: nat) = of_char c + 32"
    by (simp add: lowerByte_def)
  then have "(of_char (lowerByte c) :: nat) \<noteq> 62" using True by simp
  then have 1: "lowerByte c \<noteq> CHR ''>''" by auto
  have 2: "c \<noteq> CHR ''>''" using True by auto
  from 1 2 show ?thesis by simp
qed






lemma last_map_lowerByte_gt:
  "x \<noteq> [] \<Longrightarrow> last (map lowerByte x) = CHR ''>'' \<longleftrightarrow> last x = CHR ''>''"
  by (simp add: last_map lowerByte_eq_gt)







section \<open>The envelope when Data is called\<close>

lemma engineStep_envelopeOK:
  assumes "envelopeOK lib cfg es" and "engineStep lib lvl es c = Some es'"
  shows "envelopeOK lib cfg es'"
proof -
  obtain st s where es: "es = (st, s)" by (cases es)
  show ?thesis
  proof (cases c)
    case (CallMail sender)
    show ?thesis
    proof (cases "fst (Mail (ToLowerUnicode lib) lvl s sender)")
      case None
      then have "senderAllowed (ToLowerUnicode lib) (ToLower (ToLowerUnicode lib) sender)
                   (AllowedSenders (config s)) \<or> AllowedSenders (config s) = []"
        by (auto simp add: Mail_accepts_iff)
      with None assms es CallMail show ?thesis
        by (auto simp add: envelopeOK_def Mail_def split: if_splits)
    next
      case (Some err)
      with assms es CallMail show ?thesis
        by (auto simp add: envelopeOK_def Mail_def split: if_splits)
    qed
  next
    case (CallRcpt rcpt)
    with assms es show ?thesis
      by (auto simp add: envelopeOK_def Rcpt_def split: if_splits)
  next
    case (CallData r d)
    with assms es show ?thesis
      by (auto simp add: envelopeOK_def split: if_splits)
  next
    case CallReset
    with assms es show ?thesis
      by (auto simp add: envelopeOK_def Reset_def)
  next
    case (CallAuthPlain u p)
    with assms es show ?thesis
      by (auto simp add: envelopeOK_def AuthPlain_def)
  qed
qed

lemma engineRun_envelopeOK:
  "envelopeOK lib cfg es \<Longrightarrow> engineRun lib lvl es calls = Some es' \<Longrightarrow> envelopeOK lib cfg es'"
proof (induction calls arbitrary: es)
  case Nil
  then show ?case by simp
next
  case (Cons c cs)
  then show ?case
    by (auto split: option.splits dest: engineStep_envelopeOK)
qed

lemma To_addRecipients:
  "length (To (addRecipients lib to p)) = length (To p) + length to"
  by (induction to arbitrary: p) (simp_all add: AddTos_def Let_def)

lemma Data_recipients:
  assumes "ReadMessage lib data = Inr msg" and "MsgBody msg = Inr body"
  shows "\<exists>m p. fst (snd (Data lib lvl s (Inr data) duration)) = Some m \<and>
               Personalizations m = [p] \<and> length (To p) = length (to_s s)"
proof -
  let ?m = "fst (snd (sendViaSendGrid lib lvl s (Get (Header msg) ''From'') (to_s s)
                        (decodeHeader lib (Get (Header msg) ''Subject'')) body
                        (Get (Header msg) ''Content-Type'')))"
  have "Personalizations ?m = [addRecipients lib (to_s s) NewPersonalization]"
    by (simp add: sendViaSendGrid_message addContentFor_frame requestFor_def request_defs)
  moreover have "length (To (addRecipients lib (to_s s) NewPersonalization)) = length (to_s s)"
    by (simp add: To_addRecipients NewPersonalization_def)
  ultimately show ?thesis
    using Data_request [OF assms, of lvl s duration] by blast
qed

text \<open>
  Claim C3. Take any run of callbacks that the protocol engine makes on a new session, in
  the order of section 4.4 of the specification, and a call of \<open>Data\<close> that the engine
  makes after it. Then the recipient list of the session is not empty, and when an
  allow-list is configured the stored sender has passed the allow-list check. \<open>Data\<close> has
  no test of its own on the envelope; it is the order of the calls that keeps it from
  translating a transaction without recipients: the request it builds has at least one
  recipient.
\<close>

theorem envelope_at_Data:
  assumes run: "engineRun lib lvl (Idle, fst (NewSession lvl cfg remote)) calls = Some (st, s)"
      and data: "engineStep lib lvl (st, s) (CallData r duration) \<noteq> None"
  shows "to_s s \<noteq> [] \<and>
         (AllowedSenders (config s) \<noteq> [] \<longrightarrow>
            senderAllowed (ToLowerUnicode lib) (ToLower (ToLowerUnicode lib) (from_s s))
              (AllowedSenders (config s))) \<and>
         (ReadMessage lib data = Inr msg \<and> MsgBody msg = Inr body \<longrightarrow>
            (\<exists>m p. fst (snd (Data lib lvl s (Inr data) duration')) = Some m \<and>
                   Personalizations m = [p] \<and> To p \<noteq> []))"
proof -
  have "envelopeOK lib cfg (Idle, fst (NewSession lvl cfg remote))"
    by (simp add: envelopeOK_def NewSession_def)
  then have ok: "envelopeOK lib cfg (st, s)"
    using run by (rule engineRun_envelopeOK)
  have st: "st = RecipientsCollected"
    using data by (simp split: if_splits)
  have 1: "to_s s \<noteq> []" using ok st by (simp add: envelopeOK_def)
  have 2: "AllowedSenders (config s) \<noteq> [] \<longrightarrow>
            senderAllowed (ToLowerUnicode lib) (ToLower (ToLowerUnicode lib) (from_s s))
              (AllowedSenders (config s))"
    using ok st by (auto simp add: envelopeOK_def)
  have 3: "\<exists>m p. fst (snd (Data lib lvl s (Inr data) duration')) = Some m \<and>
                   Personalizations m = [p] \<and> To p \<noteq> []"
    if "ReadMessage lib data = Inr msg \<and> MsgBody msg = Inr body"
  proof -
    from that Data_recipients [of lib data msg body lvl s duration'] obtain m p where
      "fst (snd (Data lib lvl s (Inr data) duration')) = Some m" "Personalizations m = [p]"
      "length (To p) = length (to_s s)" by blast
    with 1 show ?thesis by auto
  qed
  from 1 2 3 show ?thesis by blast
qed

theorem envelope_at_Data_witness:
  "engineRun (sampleLib (sampleMessage [] []) ([], None) (Inr accepted)) LogInfo
     (Idle, fst (NewSession LogInfo (sampleConfig [''trusted.com'']) ''10.0.0.7:51000''))
     [CallMail ''x@evil.com'', CallMail ''a@trusted.com'', CallRcpt ''c@d.com''] =
     Some (RecipientsCollected, sampleSession [''trusted.com''] ''a@trusted.com'' [''c@d.com'']) \<and>
   engineStep (sampleLib (sampleMessage [] []) ([], None) (Inr accepted)) LogInfo
     (RecipientsCollected, sampleSession [''trusted.com''] ''a@trusted.com'' [''c@d.com''])
     (CallData (Inr ''raw'') 1500) \<noteq> None \<and>
   to_s (sampleSession [''trusted.com''] ''a@trusted.com'' [''c@d.com'']) \<noteq> [] \<and>
   senderAllowed (\<lambda>s. s) (ToLower (\<lambda>s. s) ''a@trusted.com'') [''trusted.com''] \<and>
   engineRun (sampleLib (sampleMessage [] []) ([], None) (Inr accepted)) LogInfo
     (Idle, fst (NewSession LogInfo (sampleConfig [''trusted.com'']) ''10.0.0.7:51000''))
     [CallData (Inr ''raw'') 1500] = None"
proof -
  let ?lib = "sampleLib (sampleMessage [] []) ([], None) (Inr accepted)"
  let ?init = "fst (NewSession LogInfo (sampleConfig [''trusted.com'']) ''10.0.0.7:51000'')"
  let ?t = "sampleSession [''trusted.com''] ''a@trusted.com'' [''c@d.com'']"
  have uni: "ToLowerUnicode ?lib = (\<lambda>s. s)" by (simp add: sampleLib_def)
  have m1: "Mail (\<lambda>s. s) LogInfo ?init ''x@evil.com'' =
              (Some (Errorf ''sender domain not allowed'' []), ?init,
               logWarn LogInfo ''Rejected sender %s (not in allowed list)'' [VString ''x@evil.com''])"
    by (simp add: Mail_def NewSession_def sampleConfig_def ToLower_def isASCII_def lowerByte_def
          HasSuffix_def char_of_eq_iff)
  have m2: "Mail (\<lambda>s. s) LogInfo ?init ''a@trusted.com'' =
              (None, ?init\<lparr>from_s := ''a@trusted.com''\<rparr>,
               logDebug LogInfo ''MAIL FROM: %s'' [VString ''a@trusted.com''])"
    by (simp add: Mail_def NewSession_def sampleConfig_def ToLower_def isASCII_def lowerByte_def
          HasSuffix_def char_of_eq_iff)
  have run: "engineRun ?lib LogInfo (Idle, ?init)
               [CallMail ''x@evil.com'', CallMail ''a@trusted.com'', CallRcpt ''c@d.com''] =
             Some (RecipientsCollected, ?t)"
    by (simp add: uni m1 m2) (simp add: Rcpt_def NewSession_def sampleSession_def)
  have data: "engineStep ?lib LogInfo (RecipientsCollected, ?t) (CallData (Inr ''raw'') 1500) \<noteq> None"
    by simp
  have none: "engineRun ?lib LogInfo (Idle, ?init) [CallData (Inr ''raw'') 1500] = None"
    by simp
  have ds: "AllowedSenders (config ?t) = [''trusted.com'']" and fr: "from_s ?t = ''a@trusted.com''"
    by (simp_all add: sampleSession_def sampleConfig_def)
  from envelope_at_Data [OF run data] have
    "to_s ?t \<noteq> [] \<and>
     (AllowedSenders (config ?t) \<noteq> [] \<longrightarrow>
        senderAllowed (ToLowerUnicode ?lib) (ToLower (ToLowerUnicode ?lib) (from_s ?t))
          (AllowedSenders (config ?t)))"
    by blast
  then have "to_s ?t \<noteq> [] \<and>
     senderAllowed (\<lambda>s. s) (ToLower (\<lambda>s. s) ''a@trusted.com'') [''trusted.com'']"
    unfolding uni ds fr by (simp del: senderAllowed.simps)
  with run data none show ?thesis by blast
qed

end
